theory Spec2Isabelle
  imports Complex_Main
begin

section \<open>JavaScript values\<close>

text \<open>
  JavaScript numbers are modelled as exact rationals (prices, factors) and as integers
  (counters, limits). A property read that yields \<open>undefined\<close> is \<open>None\<close>. The factor
  tables are looked up with their own keys only; keys inherited from the object prototype
  are outside the model.
\<close>

text \<open>\<open>v || d\<close> on a number: \<open>undefined\<close> and \<open>0\<close> are falsy.\<close>

definition js_or :: "rat option \<Rightarrow> rat \<Rightarrow> rat" where
  "js_or v d = (case v of None \<Rightarrow> d | Some x \<Rightarrow> if x = 0 then d else x)"

text \<open>\<open>v > x\<close> and \<open>v < x\<close>: a comparison with \<open>undefined\<close> is false.\<close>

definition js_gt :: "rat option \<Rightarrow> rat \<Rightarrow> bool" where
  "js_gt v x = (case v of None \<Rightarrow> False | Some y \<Rightarrow> x < y)"

definition js_lt :: "rat option \<Rightarrow> rat \<Rightarrow> bool" where
  "js_lt v x = (case v of None \<Rightarrow> False | Some y \<Rightarrow> y < x)"

text \<open>\<open>Math.round(x * 100) / 100\<close>; \<open>Math.round\<close> rounds halves upwards.\<close>

definition round2 :: "rat \<Rightarrow> rat" where
  "round2 x = of_int \<lfloor>x * 100 + 1 / 2\<rfloor> / 100"

section \<open>CPM optimizer (cpm-optimizer.js)\<close>

text \<open>What one \<open>new Date()\<close> shows to the optimizer: the local hour and the weekday.\<close>

record date =
  getHours :: nat
  getDay :: nat

record userBehavior =
  adCompletionRate :: "rat option"
  avgSessionDuration :: "rat option"
  taskCompletionRate :: "rat option"

record cpm_context =
  userTier :: "string option"
  country :: "string option"
  userBehavior :: "userBehavior option"

definition timeOfDay :: "string \<Rightarrow> rat option" where
  "timeOfDay = map_of
     [(''00-06'', 8 / 10), (''06-12'', 12 / 10), (''12-18'', 1), (''18-24'', 11 / 10)]"

text \<open>The keys of \<open>dayOfWeek\<close> are \<open>day.toString()\<close> for the weekday numbers.\<close>

definition dayOfWeek :: "nat \<Rightarrow> rat option" where
  "dayOfWeek = map_of
     [(0, 9 / 10), (1, 1), (2, 1), (3, 1), (4, 1), (5, 11 / 10), (6, 12 / 10)]"

definition userTierFactors :: "string \<Rightarrow> rat option" where
  "userTierFactors = map_of
     [(''free'', 1), (''basic'', 12 / 10), (''premium'', 15 / 10), (''enterprise'', 0)]"

definition geographic :: "string \<Rightarrow> rat option" where
  "geographic = map_of
     [(''US'', 13 / 10), (''GB'', 12 / 10), (''EU'', 11 / 10), (''ZA'', 1),
      (''default'', 8 / 10)]"

definition timeSlot :: "nat \<Rightarrow> string" where
  "timeSlot hour =
     (if 0 \<le> hour \<and> hour < 6 then ''00-06''
      else if 6 \<le> hour \<and> hour < 12 then ''06-12''
      else if 12 \<le> hour \<and> hour < 18 then ''12-18''
      else ''18-24'')"

definition getTimeOfDayFactor :: "date \<Rightarrow> rat" where
  "getTimeOfDayFactor now = js_or (timeOfDay (timeSlot (getHours now))) 1"

definition getDayOfWeekFactor :: "date \<Rightarrow> rat" where
  "getDayOfWeekFactor now = js_or (dayOfWeek (getDay now)) 1"

definition getUserTierFactor :: "string option \<Rightarrow> rat" where
  "getUserTierFactor t = js_or (case t of None \<Rightarrow> None | Some k \<Rightarrow> userTierFactors k) 1"

definition getGeographicFactor :: "string option \<Rightarrow> rat" where
  "getGeographicFactor c =
     js_or (case c of None \<Rightarrow> None | Some k \<Rightarrow> geographic k) (js_or (geographic ''default'') 0)"

text \<open>A missing \<open>userBehavior\<close> takes the default parameter \<open>{}\<close>.\<close>

definition getBehavioralFactor :: "userBehavior option \<Rightarrow> rat" where
  "getBehavioralFactor ub =
     (let b = (case ub of
                 None \<Rightarrow> \<lparr>adCompletionRate = None, avgSessionDuration = None,
                           taskCompletionRate = None\<rparr>
               | Some x \<Rightarrow> x);
          f0 = 1;
          f1 = (if js_gt (adCompletionRate b) (8 / 10) then f0 * (12 / 10)
                else if js_lt (adCompletionRate b) (3 / 10) then f0 * (8 / 10)
                else f0);
          f2 = (if js_gt (avgSessionDuration b) 600 then f1 * (11 / 10) else f1);
          f3 = (if js_gt (taskCompletionRate b) (7 / 10) then f2 * (115 / 100) else f2)
      in f3)"

text \<open>
  \<open>calculateOptimalCPM\<close> reads the clock twice, once in \<open>getTimeOfDayFactor\<close> and once
  in \<open>getDayOfWeekFactor\<close>; the two readings are the first two arguments.
\<close>

definition calculateOptimalCPM :: "date \<Rightarrow> date \<Rightarrow> rat \<Rightarrow> cpm_context \<Rightarrow> rat" where
  "calculateOptimalCPM now1 now2 baseCPM ctx =
     (let c0 = baseCPM;
          c1 = c0 * getTimeOfDayFactor now1;
          c2 = c1 * getDayOfWeekFactor now2;
          c3 = c2 * getUserTierFactor (userTier ctx);
          c4 = c3 * getGeographicFactor (country ctx);
          c5 = c4 * getBehavioralFactor (userBehavior ctx);
          c6 = max c5 (baseCPM * (5 / 10))
      in round2 c6)"

section \<open>Persistence\<close>

text \<open>
  The MySQL tables of the schema (001-initial-schema.sql) are lists of rows, in primary-key
  order; the columns are those of the schema, payload columns of \<open>tasks\<close> apart (they carry
  nothing the engine reads). A nullable column is an \<open>option\<close>. \<open>DECIMAL\<close> columns are
  compared as numbers. A \<open>TIMESTAMP\<close> is a number of seconds, a \<open>DATE\<close> a number of days.
\<close>

definition DATE :: "nat \<Rightarrow> nat" where
  "DATE t = t div 86400"

text \<open>A \<open>DATE\<close> compared with a \<open>TIMESTAMP\<close> stands for its midnight.\<close>

definition midnight :: "nat \<Rightarrow> nat" where
  "midnight d = d * 86400"

record user =
  u_id :: nat
  u_email :: string
  u_password_hash :: string
  u_first_name :: "string option"
  u_last_name :: "string option"
  u_country :: "string option"
  u_timezone :: "string option"
  u_subscription_tier :: string
  u_subscription_status :: string
  u_tasks_today :: "int option"
  u_last_task_date :: "nat option"
  u_ads_today :: "int option"
  u_last_ad_date :: "nat option"
  u_total_ads :: "int option"
  u_last_ad_task_count :: "int option"
  u_created_at :: nat
  u_updated_at :: nat

record task_row =
  t_id :: string
  t_user_id :: nat
  t_task_type :: string
  t_status :: string
  t_created_at :: nat
  t_completed_at :: "nat option"

record task_usage_row =
  tu_user_id :: nat
  tu_tier :: string
  tu_task_type :: string
  tu_created_at :: nat

record campaign =
  c_id :: nat
  c_name :: string
  c_advertiser :: string
  c_cpm :: rat
  c_duration :: nat
  c_target_audience :: "string list"
  c_content_url :: string
  c_start_date :: nat
  c_end_date :: "nat option"
  c_budget :: "rat option"
  c_status :: string
  c_impressions :: int
  c_completions :: int
  c_revenue :: rat
  c_created_at :: nat
  c_updated_at :: nat

record impression =
  i_id :: nat
  i_campaign_id :: nat
  i_user_id :: nat
  i_tracking_id :: "string option"
  i_revenue :: rat
  i_completed :: bool
  i_completed_at :: "nat option"
  i_impression_date :: nat
  i_created_at :: nat

text \<open>A task waiting in the orchestrator's in-memory queue.\<close>

record queued_task =
  q_id :: string
  q_userId :: nat
  q_userTier :: string
  q_agentType :: "string option"
  q_type :: string
  q_status :: string
  q_createdAt :: nat

text \<open>
  The state: the tables, the orchestrator's queue, and a fault plan. Every call to the
  database (opening a connection, executing a statement) takes the next entry of the plan
  and throws when it is \<open>True\<close>; an exhausted plan means no further failure.
\<close>

record world =
  faults :: "bool list"
  users :: "user list"
  tasks :: "task_row list"
  task_usage :: "task_usage_row list"
  ad_campaigns :: "campaign list"
  ad_impressions :: "impression list"
  taskQueue :: "queued_task list"

datatype error = DbError | TypeError | Error string

text \<open>An asynchronous function: it returns a value or throws, and changes the state.\<close>

type_synonym 'a io = "world \<Rightarrow> (error + 'a) \<times> world"

definition return_io :: "'a \<Rightarrow> 'a io" where
  "return_io x w = (Inr x, w)"

definition throw_io :: "error \<Rightarrow> 'a io" where
  "throw_io e w = (Inl e, w)"

definition bind_io :: "'a io \<Rightarrow> ('a \<Rightarrow> 'b io) \<Rightarrow> 'b io" where
  "bind_io m f w = (case m w of (Inl e, w') \<Rightarrow> (Inl e, w') | (Inr x, w') \<Rightarrow> f x w')"

text \<open>\<open>try { m } catch (error) { h error }\<close>\<close>

definition catch_io :: "'a io \<Rightarrow> (error \<Rightarrow> 'a io) \<Rightarrow> 'a io" where
  "catch_io m h w = (case m w of (Inl e, w') \<Rightarrow> h e w' | (Inr x, w') \<Rightarrow> (Inr x, w'))"

definition db_call :: "unit io" where
  "db_call w =
     (case faults w of
        [] \<Rightarrow> (Inr (), w)
      | f # fs \<Rightarrow> (if f then Inl DbError else Inr (), w\<lparr>faults := fs\<rparr>))"

text \<open>\<open>mysql.createConnection\<close>; closing the connection is taken to succeed.\<close>

definition createConnection :: "unit io" where
  "createConnection = db_call"

text \<open>One statement: a query reads the tables, an update changes them.\<close>

definition execute_query :: "(world \<Rightarrow> 'a) \<Rightarrow> 'a io" where
  "execute_query q = bind_io db_call (\<lambda>_ w. (Inr (q w), w))"

definition execute_update :: "(world \<Rightarrow> 'a \<times> world) \<Rightarrow> 'a io" where
  "execute_update u = bind_io db_call (\<lambda>_ w. (Inr (fst (u w)), snd (u w)))"

section \<open>Campaign catalog (AdCampaignModel)\<close>

text \<open>The \<open>SELECT\<close> of \<open>getCampaignsByAudience\<close>, at the database time \<open>now\<close>.\<close>

definition campaigns_by_audience :: "nat \<Rightarrow> string \<Rightarrow> world \<Rightarrow> campaign list" where
  "campaigns_by_audience now audienceTier w =
     filter (\<lambda>c. c_status c = ''active''
                \<and> midnight (c_start_date c) \<le> now
                \<and> (case c_end_date c of None \<Rightarrow> True | Some e \<Rightarrow> midnight e \<ge> now)
                \<and> audienceTier \<in> set (c_target_audience c))
            (ad_campaigns w)"

definition getCampaignsByAudience :: "nat \<Rightarrow> string \<Rightarrow> campaign list io" where
  "getCampaignsByAudience now audienceTier =
     bind_io createConnection (\<lambda>_.
       execute_query (campaigns_by_audience now audienceTier))"

definition fresh_id :: "nat list \<Rightarrow> nat" where
  "fresh_id ids = Suc (fold max ids 0)"

text \<open>The advertisement handed to \<open>recordImpression\<close>: a campaign row or the fallback.\<close>

datatype ad_id = Num nat | Str string

text \<open>
  \<open>recordImpression\<close>: two statements on one connection, no transaction. The insert fails
  on the foreign key unless \<open>campaignId\<close> is the number of an existing campaign.
\<close>

definition recordImpression :: "nat \<Rightarrow> ad_id \<Rightarrow> nat \<Rightarrow> rat \<Rightarrow> nat io" where
  "recordImpression now campaignId userId revenue =
     bind_io createConnection (\<lambda>_.
       (case campaignId of
          Str s \<Rightarrow> bind_io db_call (\<lambda>_. throw_io DbError)
        | Num cid \<Rightarrow>
            bind_io
              (execute_update (\<lambda>w.
                 if cid \<in> set (map c_id (ad_campaigns w))
                 then (let n = fresh_id (map i_id (ad_impressions w))
                       in (Some n,
                           w\<lparr>ad_impressions := ad_impressions w @
                                [\<lparr>i_id = n, i_campaign_id = cid, i_user_id = userId,
                                  i_tracking_id = None, i_revenue = revenue,
                                  i_completed = False, i_completed_at = None,
                                  i_impression_date = DATE now, i_created_at = now\<rparr>]\<rparr>))
                 else (None, w)))
              (\<lambda>inserted.
                 case inserted of
                   None \<Rightarrow> throw_io DbError
                 | Some insertId \<Rightarrow>
                     bind_io
                       (execute_update (\<lambda>w.
                          ((), w\<lparr>ad_campaigns :=
                                   map (\<lambda>c. if c_id c = cid
                                             then c\<lparr>c_impressions := c_impressions c + 1,
                                                    c_revenue := c_revenue c + revenue,
                                                    c_updated_at := now\<rparr>
                                             else c)
                                       (ad_campaigns w)\<rparr>)))
                       (\<lambda>_. return_io insertId))))"

text \<open>
  \<open>recordCompletion\<close>: the first statement marks the impression, the second adds one to the
  completions of the campaign the impression belongs to. \<open>affectedRows\<close> counts the rows
  the first statement matched.
\<close>

definition mark_completed :: "nat \<Rightarrow> nat \<Rightarrow> impression \<Rightarrow> impression" where
  "mark_completed now impressionId i =
     (if i_id i = impressionId then i\<lparr>i_completed := True, i_completed_at := Some now\<rparr>
      else i)"

definition add_completion :: "nat \<Rightarrow> nat \<Rightarrow> campaign \<Rightarrow> campaign" where
  "add_completion now cid c =
     (if c_id c = cid then c\<lparr>c_completions := c_completions c + 1, c_updated_at := now\<rparr>
      else c)"

definition recordCompletion :: "nat \<Rightarrow> nat \<Rightarrow> bool io" where
  "recordCompletion now impressionId =
     bind_io createConnection (\<lambda>_.
       bind_io
         (execute_update (\<lambda>w.
            (length (filter (\<lambda>i. i_id i = impressionId) (ad_impressions w)),
             w\<lparr>ad_impressions := map (mark_completed now impressionId) (ad_impressions w)\<rparr>)))
         (\<lambda>affectedRows.
            bind_io
              (execute_update (\<lambda>w.
                 ((), case find (\<lambda>i. i_id i = impressionId) (ad_impressions w) of
                        None \<Rightarrow> w
                      | Some i \<Rightarrow>
                          w\<lparr>ad_campaigns :=
                               map (add_completion now (i_campaign_id i)) (ad_campaigns w)\<rparr>)))
              (\<lambda>_. return_io (affectedRows > 0))))"

section \<open>Ad manager (ad-manager.js)\<close>

record fallback_ad =
  f_id :: string
  f_content_url :: string
  f_duration :: nat
  f_cpm :: rat
  f_name :: string
  f_advertiser :: string

datatype ad = Campaign campaign | Fallback fallback_ad

definition ad_ident :: "ad \<Rightarrow> ad_id" where
  "ad_ident a = (case a of Campaign c \<Rightarrow> Num (c_id c) | Fallback f \<Rightarrow> Str (f_id f))"

definition ad_cpm :: "ad \<Rightarrow> rat" where
  "ad_cpm a = (case a of Campaign c \<Rightarrow> c_cpm c | Fallback f \<Rightarrow> f_cpm f)"

definition ad_content_url :: "ad \<Rightarrow> string" where
  "ad_content_url a = (case a of Campaign c \<Rightarrow> c_content_url c | Fallback f \<Rightarrow> f_content_url f)"

definition ad_duration :: "ad \<Rightarrow> nat" where
  "ad_duration a = (case a of Campaign c \<Rightarrow> c_duration c | Fallback f \<Rightarrow> f_duration f)"

text \<open>\<open>adFrequency\<close>: per tier, \<open>tasksPerAd\<close> and \<open>maxAdsPerDay\<close>.\<close>

definition adFrequency :: "string \<Rightarrow> (int \<times> int) option" where
  "adFrequency = map_of
     [(''free'', (2, 10)), (''basic'', (5, 8)), (''premium'', (200, 1)),
      (''enterprise'', (0, 0))]"

record userStats =
  tasksCount :: "int option"
  lastAdTaskCount :: "int option"
  adsToday :: "int option"

text \<open>\<open>v || 0\<close> on a counter.\<close>

definition or_zero :: "int option \<Rightarrow> int" where
  "or_zero v = (case v of None \<Rightarrow> 0 | Some x \<Rightarrow> x)"

definition shouldServeAd :: "string \<Rightarrow> userStats \<Rightarrow> bool" where
  "shouldServeAd tier stats =
     (case adFrequency tier of
        None \<Rightarrow> False
      | Some (tasksPerAd, maxAdsPerDay) \<Rightarrow>
          if tasksPerAd = 0 then False
          else (let tasksSinceLastAd = or_zero (tasksCount stats) - or_zero (lastAdTaskCount stats);
                    ads = or_zero (adsToday stats)
                in tasksSinceLastAd \<ge> tasksPerAd \<and> ads < maxAdsPerDay))"

definition fallback :: ad where
  "fallback = Fallback
     \<lparr>f_id = ''fallback'',
      f_content_url = ''https://cdn.example.com/ads/fallback-ad.mp4'',
      f_duration = 30, f_cpm = 50, f_name = ''Fallback Ad'',
      f_advertiser = ''AI Orchestrator''\<rparr>"

definition getFallbackAd :: "ad io" where
  "getFallbackAd = return_io fallback"

text \<open>The filter of \<open>selectAd\<close>; its readings of the clock are taken as one instant.\<close>

definition availableCampaigns :: "nat \<Rightarrow> campaign list \<Rightarrow> campaign list" where
  "availableCampaigns now campaigns =
     filter (\<lambda>campaign. c_status campaign = ''active''
                       \<and> (case c_budget campaign of
                            None \<Rightarrow> True
                          | Some b \<Rightarrow> c_revenue campaign < b)
                       \<and> (case c_end_date campaign of
                            None \<Rightarrow> True
                          | Some e \<Rightarrow> midnight e \<ge> now))
            campaigns"

text \<open>The callback of \<open>reduce\<close>.\<close>

definition higher_cpm :: "campaign \<Rightarrow> campaign \<Rightarrow> campaign" where
  "higher_cpm prev current = (if c_cpm prev > c_cpm current then prev else current)"

text \<open>
  \<open>selectAd\<close>: \<open>now_db\<close> is the time of the catalog query (\<open>NOW()\<close>), \<open>now_js\<close> the time of
  the filter (\<open>new Date()\<close>). \<open>reduce\<close> without initial value starts from the first element.
\<close>

definition selectAd :: "nat \<Rightarrow> nat \<Rightarrow> string \<Rightarrow> ad io" where
  "selectAd now_db now_js tier =
     catch_io
       (bind_io (getCampaignsByAudience now_db tier) (\<lambda>campaigns.
          if length campaigns = 0 then getFallbackAd
          else (case availableCampaigns now_js campaigns of
                  [] \<Rightarrow> getFallbackAd
                | c # cs \<Rightarrow> return_io (Campaign (foldl higher_cpm c cs)))))
       (\<lambda>error. getFallbackAd)"

datatype tracking_id = InsertId nat | Tracking string

text \<open>
  \<open>trackImpression\<close>: \<open>fresh\<close> is the text made of \<open>Date.now()\<close> and \<open>Math.random()\<close> that
  ends the tracking id returned when recording fails.
\<close>

definition trackImpression :: "nat \<Rightarrow> string \<Rightarrow> nat \<Rightarrow> ad \<Rightarrow> tracking_id io" where
  "trackImpression now fresh userId a =
     catch_io
       (let revenue = ad_cpm a / 1000
        in bind_io (recordImpression now (ad_ident a) userId revenue) (\<lambda>impressionId.
             return_io (InsertId impressionId)))
       (\<lambda>error. return_io (Tracking (''tracking_'' @ fresh)))"

definition updateUserAdStats :: "nat \<Rightarrow> nat \<Rightarrow> int \<Rightarrow> unit io" where
  "updateUserAdStats now userId currentTaskCount =
     catch_io
       (execute_update (\<lambda>w.
          ((), w\<lparr>users :=
                   map (\<lambda>u. if u_id u = userId
                             then u\<lparr>u_ads_today := Some (or_zero (u_ads_today u) + 1),
                                    u_total_ads := Some (or_zero (u_total_ads u) + 1),
                                    u_last_ad_task_count := Some currentTaskCount,
                                    u_last_ad_date := Some (DATE now),
                                    u_updated_at := now\<rparr>
                             else u)
                       (users w)\<rparr>)))
       (\<lambda>error. return_io ())"

record ad_descriptor =
  adContent :: string
  duration :: nat
  cpm :: rat
  campaignId :: ad_id
  requiresAttention :: bool
  skipable :: bool
  trackingId :: tracking_id

datatype serve_result = AdNotRequired | AdRequired ad_descriptor

definition serveAd :: "nat \<Rightarrow> nat \<Rightarrow> string \<Rightarrow> nat \<Rightarrow> string \<Rightarrow> userStats \<Rightarrow> serve_result io" where
  "serveAd now_db now_js fresh userId tier stats =
     catch_io
       (if \<not> shouldServeAd tier stats then return_io AdNotRequired
        else
          bind_io (selectAd now_db now_js tier) (\<lambda>a.
          bind_io (trackImpression now_db fresh userId a) (\<lambda>impressionId.
          bind_io (updateUserAdStats now_db userId (or_zero (tasksCount stats))) (\<lambda>_.
          return_io (AdRequired
            \<lparr>adContent = ad_content_url a, duration = ad_duration a, cpm = ad_cpm a,
             campaignId = ad_ident a, requiresAttention = True, skipable = False,
             trackingId = impressionId\<rparr>)))))
       (\<lambda>error. return_io AdNotRequired)"

section \<open>Ad completion (ad-middleware.js)\<close>

text \<open>
  \<open>trackAdCompletion\<close>, the handler of \<open>POST /complete\<close>: the result is the HTTP status.
  It marks the impressions with the given tracking id and user, and touches no campaign.
\<close>

definition trackAdCompletion :: "nat \<Rightarrow> string option \<Rightarrow> nat \<Rightarrow> nat io" where
  "trackAdCompletion now tracking userId =
     (case tracking of
        None \<Rightarrow> return_io 400
      | Some tid \<Rightarrow>
          if tid = [] then return_io 400
          else
            catch_io
              (bind_io
                 (execute_update (\<lambda>w.
                    ((), w\<lparr>ad_impressions :=
                             map (\<lambda>i. if i_tracking_id i = Some tid \<and> i_user_id i = userId
                                       then i\<lparr>i_completed := True, i_completed_at := Some now\<rparr>
                                       else i)
                                 (ad_impressions w)\<rparr>)))
                 (\<lambda>_. return_io 200))
              (\<lambda>error. return_io 500))"

section \<open>Identity counters (UserModel)\<close>

text \<open>
  The schema declares \<open>users.updated_at\<close> as \<open>ON UPDATE CURRENT_TIMESTAMP\<close>: an \<open>UPDATE\<close>
  that does not set the column itself stamps every row whose values it changes.
\<close>

definition reset_row :: "nat \<Rightarrow> user \<Rightarrow> user" where
  "reset_row now u =
     (if u_tasks_today u = Some 0 \<and> u_ads_today u = Some 0 then u
      else u\<lparr>u_tasks_today := Some 0, u_ads_today := Some 0, u_updated_at := now\<rparr>)"

definition stale :: "nat \<Rightarrow> user \<Rightarrow> bool" where
  "stale now u = (DATE (u_updated_at u) < DATE now)"

text \<open>\<open>resetDailyCounts\<close> returns \<open>affectedRows\<close>, the number of rows matched.\<close>

definition resetDailyCounts :: "nat \<Rightarrow> nat io" where
  "resetDailyCounts now =
     bind_io createConnection (\<lambda>_.
       execute_update (\<lambda>w.
         (length (filter (stale now) (users w)),
          w\<lparr>users := map (\<lambda>u. if stale now u then reset_row now u else u) (users w)\<rparr>)))"

definition incrementTaskCount :: "nat \<Rightarrow> nat \<Rightarrow> bool io" where
  "incrementTaskCount now userId =
     bind_io createConnection (\<lambda>_.
       bind_io
         (execute_update (\<lambda>w.
            (length (filter (\<lambda>u. u_id u = userId) (users w)),
             w\<lparr>users :=
                  map (\<lambda>u. if u_id u = userId
                            then u\<lparr>u_tasks_today := map_option (\<lambda>n. n + 1) (u_tasks_today u),
                                   u_updated_at := now\<rparr>
                            else u)
                      (users w)\<rparr>)))
         (\<lambda>affectedRows. return_io (affectedRows > 0)))"

section \<open>Orchestrator (orchestrator.js)\<close>

definition taskLimits :: "string \<Rightarrow> (string \<Rightarrow> int option) option" where
  "taskLimits = map_of
     [(''free'', map_of [(''text'', 5), (''image'', 1), (''code'', 1), (''research'', 1),
                         (''analysis'', 1), (''voice'', 0)]),
      (''basic'', map_of [(''text'', 50), (''image'', 10), (''code'', 10), (''research'', 10),
                          (''analysis'', 10), (''voice'', 5)]),
      (''premium'', map_of [(''text'', 200), (''image'', 50), (''code'', 50),
                            (''research'', 50), (''analysis'', 50), (''voice'', 20)]),
      (''enterprise'', map_of [(''text'', - 1), (''image'', - 1), (''code'', - 1),
                               (''research'', - 1), (''analysis'', - 1), (''voice'', - 1)])]"

text \<open>\<open>this.taskLimits[tier][taskType]\<close>, where both entries exist.\<close>

definition daily_limit :: "string \<Rightarrow> string \<Rightarrow> int option" where
  "daily_limit tier taskType =
     (case taskLimits tier of None \<Rightarrow> None | Some limits \<Rightarrow> limits taskType)"

text \<open>The \<open>SELECT COUNT(*)\<close> of \<open>getTodayTaskCount\<close>: rows of \<open>tasks\<close>, created today.\<close>

definition today_count :: "nat \<Rightarrow> nat \<Rightarrow> string \<Rightarrow> world \<Rightarrow> nat" where
  "today_count now userId taskType w =
     length (filter (\<lambda>t. t_user_id t = userId \<and> t_task_type t = taskType
                         \<and> DATE (t_created_at t) = DATE now)
                    (tasks w))"

definition getTodayTaskCount :: "nat \<Rightarrow> nat \<Rightarrow> string \<Rightarrow> nat io" where
  "getTodayTaskCount now userId taskType =
     catch_io (execute_query (today_count now userId taskType)) (\<lambda>error. return_io 0)"

text \<open>
  \<open>canProcessTask\<close>: an unknown tier has no limits object and reading its property throws;
  a task type without entry compares the count with \<open>undefined\<close>, which is false.
\<close>

definition canProcessTask :: "nat \<Rightarrow> nat \<Rightarrow> string \<Rightarrow> string \<Rightarrow> bool io" where
  "canProcessTask now userId tier taskType =
     (case taskLimits tier of
        None \<Rightarrow> throw_io TypeError
      | Some limits \<Rightarrow>
          if limits taskType = Some (- 1) then return_io True
          else
            bind_io (getTodayTaskCount now userId taskType) (\<lambda>todayTasks.
              return_io (case limits taskType of
                           None \<Rightarrow> False
                         | Some limit \<Rightarrow> int todayTasks < limit)))"

record task =
  task_type :: "string option"
  agentType :: "string option"
  prompt :: "string option"

record request_user =
  user_id :: nat
  subscriptionTier :: "string option"

definition tierAccess :: "string \<Rightarrow> string list option" where
  "tierAccess = map_of
     [(''free'', [''research'', ''creative'', ''coding'', ''analysis'']),
      (''basic'', [''research'', ''creative'', ''coding'', ''analysis'', ''voice'']),
      (''premium'', [''research'', ''creative'', ''coding'', ''analysis'', ''voice'']),
      (''enterprise'', [''research'', ''creative'', ''coding'', ''analysis'', ''voice'',
                        ''custom''])]"

definition validateAgentAccess :: "string \<Rightarrow> string option \<Rightarrow> bool" where
  "validateAgentAccess tier agent =
     (case tierAccess tier of
        None \<Rightarrow> False
      | Some allowed \<Rightarrow> (case agent of None \<Rightarrow> False | Some a \<Rightarrow> a \<in> set allowed))"

text \<open>A case-insensitive search for a lower-case pattern, as the regular expressions do.\<close>

definition lower :: "char \<Rightarrow> char" where
  "lower c = (if 65 \<le> (of_char c :: nat) \<and> (of_char c :: nat) \<le> 90
              then char_of ((of_char c :: nat) + 32) else c)"

fun starts_with :: "string \<Rightarrow> string \<Rightarrow> bool" where
  "starts_with [] text = True"
| "starts_with (p # ps) [] = False"
| "starts_with (p # ps) (c # cs) = (p = lower c \<and> starts_with ps cs)"

fun matches :: "string \<Rightarrow> string \<Rightarrow> bool" where
  "matches pat [] = starts_with pat []"
| "matches pat (c # cs) = (starts_with pat (c # cs) \<or> matches pat cs)"

definition containsInappropriateContent :: "string \<Rightarrow> bool" where
  "containsInappropriateContent text =
     (\<exists>pat \<in> set [''violence'', ''hate speech'', ''illegal activities'', ''adult content''].
        matches pat text)"

definition falsy :: "string option \<Rightarrow> bool" where
  "falsy v = (case v of None \<Rightarrow> True | Some s \<Rightarrow> s = [])"

text \<open>\<open>validateTask\<close>: \<open>None\<close> when the task is valid, otherwise the error message.\<close>

definition validateTask :: "task \<Rightarrow> request_user \<Rightarrow> string \<Rightarrow> string option" where
  "validateTask t user tier =
     (if \<not> validateAgentAccess tier (agentType t)
      then Some (''Agent '' @ (case agentType t of None \<Rightarrow> ''undefined'' | Some a \<Rightarrow> a)
                 @ '' not available for your subscription tier'')
      else if falsy (task_type t) \<or> falsy (prompt t)
      then Some ''Task must include type and prompt''
      else if (case prompt t of None \<Rightarrow> False | Some p \<Rightarrow> containsInappropriateContent p)
      then Some ''Task contains inappropriate content''
      else None)"

definition recordTaskUsage :: "nat \<Rightarrow> nat \<Rightarrow> string \<Rightarrow> string \<Rightarrow> unit io" where
  "recordTaskUsage now userId tier taskType =
     catch_io
       (execute_update (\<lambda>w.
          ((), w\<lparr>task_usage := task_usage w @
                   [\<lparr>tu_user_id = userId, tu_tier = tier, tu_task_type = taskType,
                     tu_created_at = now\<rparr>]\<rparr>)))
       (\<lambda>error. return_io ())"

record receipt =
  taskId :: string
  status :: string
  position :: nat
  estimatedWait :: nat

definition estimateWaitTime :: "world \<Rightarrow> nat" where
  "estimateWaitTime w = length (taskQueue w) * 5000"

text \<open>
  \<open>processTask\<close> in its two halves, before and after the suspension at
  \<open>await this.canProcessTask(...)\<close>. The first half validates the task and checks the daily
  limit; the second puts the task on the queue, records the usage and answers. \<open>fresh\<close> is
  the text made of \<open>Date.now()\<close> and \<open>Math.random()\<close> that ends the task id. Encrypting the
  payload is taken to succeed.
\<close>

definition effective_tier :: "request_user \<Rightarrow> string" where
  "effective_tier user =
     (case subscriptionTier user of None \<Rightarrow> ''free'' | Some t \<Rightarrow> if t = [] then ''free'' else t)"

definition processTask_check :: "nat \<Rightarrow> task \<Rightarrow> request_user \<Rightarrow> string io" where
  "processTask_check now t user =
     (let tier = effective_tier user
      in case validateTask t user tier of
           Some message \<Rightarrow> throw_io (Error message)
         | None \<Rightarrow>
             (case task_type t of
                None \<Rightarrow> throw_io TypeError
              | Some ty \<Rightarrow>
                  bind_io (canProcessTask now (user_id user) tier ty) (\<lambda>allowed.
                    if \<not> allowed
                    then throw_io (Error (''Daily '' @ ty @ '' task limit reached for '' @ tier
                                          @ '' tier.''))
                    else return_io ty)))"

definition queued :: "nat \<Rightarrow> string \<Rightarrow> task \<Rightarrow> request_user \<Rightarrow> string \<Rightarrow> queued_task" where
  "queued now fresh t user ty =
     \<lparr>q_id = ''task_'' @ fresh, q_userId = user_id user, q_userTier = effective_tier user,
      q_agentType = agentType t, q_type = ty, q_status = ''queued'', q_createdAt = now\<rparr>"

definition processTask_enqueue ::
  "nat \<Rightarrow> string \<Rightarrow> task \<Rightarrow> request_user \<Rightarrow> string \<Rightarrow> receipt io" where
  "processTask_enqueue now fresh t user ty =
     (let queuedTask = queued now fresh t user ty
      in bind_io (\<lambda>w. (Inr (), w\<lparr>taskQueue := taskQueue w @ [queuedTask]\<rparr>)) (\<lambda>_.
         bind_io (recordTaskUsage now (user_id user) (effective_tier user) ty) (\<lambda>_ w.
           (Inr \<lparr>taskId = q_id queuedTask, status = ''queued'',
                  position = length (taskQueue w), estimatedWait = estimateWaitTime w\<rparr>, w))))"

definition processTask :: "nat \<Rightarrow> string \<Rightarrow> task \<Rightarrow> request_user \<Rightarrow> receipt io" where
  "processTask now fresh t user =
     bind_io (processTask_check now t user) (processTask_enqueue now fresh t user)"





text \<open>
  Requests one after the other, each awaited before the next, with no firing of the timer
  in between: the number of requests accepted.
\<close>

fun process_all :: "task \<Rightarrow> request_user \<Rightarrow> (nat \<times> string) list \<Rightarrow> world \<Rightarrow> nat \<times> world" where
  "process_all t user [] w = (0, w)"
| "process_all t user ((now, fresh) # rest) w =
     (case processTask now fresh t user w of
        (Inl e, w1) \<Rightarrow> process_all t user rest w1
      | (Inr r, w1) \<Rightarrow> (Suc (fst (process_all t user rest w1)),
                        snd (process_all t user rest w1)))"



section \<open>Sample data\<close>

text \<open>
  Rows in the shape of the sample data of the migrations, used to run the definitions:
  day 20000 starts at second 1728000000, and \<open>t0\<close> is one hour into that day.
\<close>

definition t0 :: nat where
  "t0 = 1728003600"

definition campaign_row ::
  "nat \<Rightarrow> string \<Rightarrow> rat \<Rightarrow> string list \<Rightarrow> nat option \<Rightarrow> rat \<Rightarrow> rat \<Rightarrow> campaign" where
  "campaign_row n nm price audience until bud earned =
     \<lparr>c_id = n, c_name = nm, c_advertiser = ''TechInnovate Inc'', c_cpm = price,
      c_duration = 30, c_target_audience = audience,
      c_content_url = ''https://cdn.example.com/ads/luxury-tech.mp4'',
      c_start_date = 20000, c_end_date = until, c_budget = Some bud, c_status = ''active'',
      c_impressions = 0, c_completions = 0, c_revenue = earned,
      c_created_at = 1728000000, c_updated_at = 1728000000\<rparr>"

definition luxury_tech :: campaign where
  "luxury_tech = campaign_row 1 ''Luxury Tech Solutions'' 2200
     [''free'', ''basic'', ''premium''] (Some 20030) 10000 0"

definition financial_services :: campaign where
  "financial_services = campaign_row 2 ''Premium Financial Services'' 1500
     [''basic'', ''premium''] (Some 20060) 15000 0"

definition ai_tools :: campaign where
  "ai_tools = campaign_row 3 ''AI Tools Platform'' 800
     [''free'', ''basic'', ''premium''] (Some 20090) 5000 0"

definition enterprise_saas :: campaign where
  "enterprise_saas = campaign_row 4 ''Enterprise SaaS'' 600
     [''free'', ''basic'', ''premium''] None 20000 0"

text \<open>A fifth campaign with the same price as the first.\<close>

definition luxury_tech_twin :: campaign where
  "luxury_tech_twin = campaign_row 5 ''Luxury Tech Solutions II'' 2200
     [''free'', ''basic'', ''premium''] (Some 20030) 10000 0"

definition user_row :: "nat \<Rightarrow> string \<Rightarrow> string \<Rightarrow> int \<Rightarrow> int \<Rightarrow> int \<Rightarrow> int \<Rightarrow> nat \<Rightarrow> user" where
  "user_row n mail tier n_tasks n_ads n_total n_last updated =
     \<lparr>u_id = n, u_email = mail, u_password_hash = ''$2b$12$LQv3c1yqBWVHxkd0g8f'',
      u_first_name = Some ''John'', u_last_name = Some ''Doe'', u_country = Some ''US'',
      u_timezone = Some ''UTC'', u_subscription_tier = tier,
      u_subscription_status = ''active'', u_tasks_today = Some n_tasks,
      u_last_task_date = None, u_ads_today = Some n_ads, u_last_ad_date = None,
      u_total_ads = Some n_total, u_last_ad_task_count = Some n_last,
      u_created_at = 1700000000, u_updated_at = updated\<rparr>"

text \<open>
  John, on the free tier, was last updated the day before \<open>t0\<close>; Jane, on the basic tier,
  earlier on the day of \<open>t0\<close>.
\<close>

definition john :: user where
  "john = user_row 1 ''john.doe@example.com'' ''free'' 4 1 7 2 1727990000"

definition jane :: user where
  "jane = user_row 2 ''jane.smith@example.com'' ''basic'' 3 0 2 0 1728001000"

definition sample_world :: world where
  "sample_world =
     \<lparr>faults = [],
      users = [john, jane],
      tasks = [], task_usage = [],
      ad_campaigns = [luxury_tech, financial_services, ai_tools, enterprise_saas],
      ad_impressions = [], taskQueue = []\<rparr>"

text \<open>The sample catalog after one impression of the first campaign was served to John.\<close>

definition first_impression :: impression where
  "first_impression =
     \<lparr>i_id = 7, i_campaign_id = 1, i_user_id = 1, i_tracking_id = Some ''track_7'',
      i_revenue = 22 / 10, i_completed = False, i_completed_at = None,
      i_impression_date = 20000, i_created_at = 1728000100\<rparr>"

definition served_world :: world where
  "served_world = sample_world\<lparr>ad_impressions := [first_impression]\<rparr>"

text \<open>John's requests, and a day on which five of his text tasks are already stored.\<close>

definition john_request :: request_user where
  "john_request = \<lparr>user_id = 1, subscriptionTier = Some ''free''\<rparr>"

definition text_request :: task where
  "text_request =
     \<lparr>task_type = Some ''text'', agentType = Some ''creative'', prompt = Some ''Test task''\<rparr>"

definition image_request :: task where
  "image_request =
     \<lparr>task_type = Some ''image'', agentType = Some ''creative'', prompt = Some ''A logo''\<rparr>"

definition stored_text_task :: "string \<Rightarrow> task_row" where
  "stored_text_task name =
     \<lparr>t_id = name, t_user_id = 1, t_task_type = ''text'', t_status = ''processing'',
      t_created_at = 1728000500, t_completed_at = None\<rparr>"

definition busy_world :: world where
  "busy_world = sample_world\<lparr>tasks :=
     [stored_text_task ''task_1'', stored_text_task ''task_2'', stored_text_task ''task_3'',
      stored_text_task ''task_4'', stored_text_task ''task_5'']\<rparr>"

text \<open>John's counters as the ad manager receives them when an advertisement is due.\<close>

definition due_stats :: userStats where
  "due_stats = \<lparr>tasksCount = Some 4, lastAdTaskCount = Some 2, adsToday = Some 1\<rparr>"

text \<open>
  Two failures: the database is down when the quota check counts the tasks; the catalog
  query works, but the insert of the impression fails.
\<close>

definition count_down_world :: world where
  "count_down_world = sample_world\<lparr>faults := [True]\<rparr>"

definition insert_down_world :: world where
  "insert_down_world = sample_world\<lparr>faults := [False, False, False, True]\<rparr>"


section \<open>Properties of the CPM optimizer\<close>







text \<open>
  C5. The claim: the result is determined by \<open>baseCPM\<close> and the context alone. The code
  reads the clock; what holds is that two calls with the same arguments agree whenever
  their clock readings fall into the same six-hour slot and on the same weekday.
\<close>

theorem calculateOptimalCPM_deterministic_given_clock:
  assumes "timeSlot (getHours now1) = timeSlot (getHours now1')"
    and "getDay now2 = getDay now2'"
  shows "calculateOptimalCPM now1 now2 baseCPM ctx = calculateOptimalCPM now1' now2' baseCPM ctx"
  using assms
  by (simp add: calculateOptimalCPM_def getTimeOfDayFactor_def getDayOfWeekFactor_def)

theorem calculateOptimalCPM_deterministic_given_clock_witness:
  "timeSlot (getHours \<lparr>getHours = 7, getDay = 2\<rparr>) = timeSlot (getHours \<lparr>getHours = 11, getDay = 5\<rparr>)
   \<and> getDay \<lparr>getHours = 20, getDay = 3\<rparr> = getDay \<lparr>getHours = 1, getDay = 3\<rparr>
   \<and> calculateOptimalCPM \<lparr>getHours = 7, getDay = 2\<rparr> \<lparr>getHours = 20, getDay = 3\<rparr> 100
        \<lparr>userTier = Some ''basic'', country = Some ''US'', userBehavior = None\<rparr>
     = calculateOptimalCPM \<lparr>getHours = 11, getDay = 5\<rparr> \<lparr>getHours = 1, getDay = 3\<rparr> 100
        \<lparr>userTier = Some ''basic'', country = Some ''US'', userBehavior = None\<rparr>"
proof -
  have a: "timeSlot (getHours \<lparr>getHours = 7, getDay = 2\<rparr>)
           = timeSlot (getHours \<lparr>getHours = 11, getDay = 5\<rparr>)"
    by (simp add: timeSlot_def)
  have b: "getDay \<lparr>getHours = 20, getDay = 3\<rparr> = getDay \<lparr>getHours = 1, getDay = 3\<rparr>"
    by simp
  from a b calculateOptimalCPM_deterministic_given_clock [OF a b] show ?thesis by blast
qed

text \<open>
  C5, the claim refuted: the same base price and context give 80 at three in the morning
  and 120 at eight.
\<close>

theorem calculateOptimalCPM_clock_dependent:
  "calculateOptimalCPM \<lparr>getHours = 3, getDay = 1\<rparr> \<lparr>getHours = 3, getDay = 1\<rparr> 100
     \<lparr>userTier = Some ''free'', country = Some ''ZA'', userBehavior = None\<rparr> = 80
   \<and> calculateOptimalCPM \<lparr>getHours = 8, getDay = 1\<rparr> \<lparr>getHours = 8, getDay = 1\<rparr> 100
     \<lparr>userTier = Some ''free'', country = Some ''ZA'', userBehavior = None\<rparr> = 120"
  by code_simp

subsection \<open>The price is monotone in the base price\<close>








section \<open>Properties of campaign selection\<close>

lemma getCampaignsByAudience_cases:
  "(\<exists>w'. getCampaignsByAudience now t w = (Inl DbError, w')) \<or>
   (\<exists>w'. getCampaignsByAudience now t w = (Inr (campaigns_by_audience now t w), w'))"
  unfolding getCampaignsByAudience_def createConnection_def execute_query_def bind_io_def db_call_def
  by (auto simp: campaigns_by_audience_def split: list.splits)



lemma selectAd_cases:
  "fst (selectAd now_db now_js t w) = Inr fallback \<or>
   (\<exists>c cs. fst (getCampaignsByAudience now_db t w) = Inr (campaigns_by_audience now_db t w) \<and>
      availableCampaigns now_js (campaigns_by_audience now_db t w) = c # cs \<and>
      fst (selectAd now_db now_js t w) = Inr (Campaign (foldl higher_cpm c cs)))"
  using getCampaignsByAudience_cases[of now_db t w]
  by (auto simp: selectAd_def catch_io_def bind_io_def getFallbackAd_def return_io_def
      split: list.splits)

lemma selectAd_fallback:
  assumes "case fst (getCampaignsByAudience now_db t w) of
             Inl e \<Rightarrow> True | Inr cs \<Rightarrow> availableCampaigns now_js cs = []"
  shows "fst (selectAd now_db now_js t w) = Inr fallback"
  using getCampaignsByAudience_cases[of now_db t w] assms
  by (auto simp: selectAd_def catch_io_def bind_io_def getFallbackAd_def return_io_def
      split: list.splits)



subsection \<open>The sample catalog\<close>

lemma campaign_row_sel:
  "c_id (campaign_row n nm p a u b e) = n"
  "c_cpm (campaign_row n nm p a u b e) = p"
  "c_status (campaign_row n nm p a u b e) = ''active''"
  "c_target_audience (campaign_row n nm p a u b e) = a"
  "c_start_date (campaign_row n nm p a u b e) = 20000"
  "c_end_date (campaign_row n nm p a u b e) = u"
  "c_budget (campaign_row n nm p a u b e) = Some b"
  "c_revenue (campaign_row n nm p a u b e) = e"
  "c_completions (campaign_row n nm p a u b e) = 0"
  "c_impressions (campaign_row n nm p a u b e) = 0"
  by (simp_all add: campaign_row_def)

lemmas sample_campaign_defs =
  luxury_tech_def financial_services_def ai_tools_def enterprise_saas_def luxury_tech_twin_def

lemma sample_world_sel:
  "faults sample_world = []"
  "ad_campaigns sample_world = [luxury_tech, financial_services, ai_tools, enterprise_saas]"
  "tasks sample_world = []"
  "task_usage sample_world = []"
  "ad_impressions sample_world = []"
  "taskQueue sample_world = []"
  by (simp_all add: sample_world_def)





lemma sample_available:
  "availableCampaigns t0 [luxury_tech, ai_tools, enterprise_saas]
     = [luxury_tech, ai_tools, enterprise_saas]"
  by (simp add: availableCampaigns_def sample_campaign_defs campaign_row_sel t0_def midnight_def)

subsection \<open>Which campaign is selected\<close>




subsection \<open>Only eligible campaigns are selected\<close>




subsection \<open>Selection never fails\<close>

text \<open>
  C6. \<open>selectAd\<close> always returns an advertisement and never throws; when the catalog query
  fails or no campaign passes the filter it returns the fallback, whose id is
  \<open>fallback\<close> and whose price is 50.
\<close>

theorem selectAd_never_fails:
  "(\<exists>a. fst (selectAd now_db now_js tier w) = Inr a)
   \<and> ((case fst (getCampaignsByAudience now_db tier w) of
          Inl e \<Rightarrow> True | Inr cs \<Rightarrow> availableCampaigns now_js cs = [])
       \<longrightarrow> fst (selectAd now_db now_js tier w) = Inr fallback
           \<and> ad_ident fallback = Str ''fallback'' \<and> ad_cpm fallback = 50)"
proof -
  have "\<exists>a. fst (selectAd now_db now_js tier w) = Inr a"
    using selectAd_cases[of now_db now_js tier w] by auto
  moreover have "ad_ident fallback = Str ''fallback''" "ad_cpm fallback = 50"
    by (simp_all add: ad_ident_def ad_cpm_def fallback_def)
  ultimately show ?thesis using selectAd_fallback by blast
qed

lemma failing_query:
  "fst (getCampaignsByAudience t0 ''free'' (sample_world\<lparr>faults := [False, True]\<rparr>)) = Inl DbError"
  by (simp add: getCampaignsByAudience_def createConnection_def execute_query_def bind_io_def
      db_call_def)

theorem selectAd_never_fails_witness:
  "(case fst (getCampaignsByAudience t0 ''free'' (sample_world\<lparr>faults := [False, True]\<rparr>)) of
          Inl e \<Rightarrow> True | Inr cs \<Rightarrow> availableCampaigns t0 cs = [])
   \<and> fst (selectAd t0 t0 ''free'' (sample_world\<lparr>faults := [False, True]\<rparr>)) = Inr fallback
   \<and> ad_ident fallback = Str ''fallback'' \<and> ad_cpm fallback = 50"
proof -
  have h: "(case fst (getCampaignsByAudience t0 ''free'' (sample_world\<lparr>faults := [False, True]\<rparr>)) of
          Inl e \<Rightarrow> True | Inr cs \<Rightarrow> availableCampaigns t0 cs = [])"
    by (simp add: failing_query)
  from h selectAd_never_fails [of t0 t0 "''free''" "sample_world\<lparr>faults := [False, True]\<rparr>"]
  show ?thesis by blast
qed

section \<open>Properties of the daily reset\<close>

lemma db_call_tables:
  "db_call w = (r, w') \<Longrightarrow>
     users w' = users w \<and> tasks w' = tasks w \<and> task_usage w' = task_usage w
     \<and> ad_campaigns w' = ad_campaigns w \<and> ad_impressions w' = ad_impressions w
     \<and> taskQueue w' = taskQueue w"
  by (auto simp: db_call_def split: list.splits)

lemma resetDailyCounts_cases:
  "(fst (resetDailyCounts now w) = Inl DbError
      \<and> users (snd (resetDailyCounts now w)) = users w
    \<or> fst (resetDailyCounts now w) = Inr (length (filter (stale now) (users w)))
      \<and> users (snd (resetDailyCounts now w))
          = map (\<lambda>u. if stale now u then reset_row now u else u) (users w))
   \<and> tasks (snd (resetDailyCounts now w)) = tasks w
   \<and> task_usage (snd (resetDailyCounts now w)) = task_usage w
   \<and> ad_campaigns (snd (resetDailyCounts now w)) = ad_campaigns w
   \<and> ad_impressions (snd (resetDailyCounts now w)) = ad_impressions w
   \<and> taskQueue (snd (resetDailyCounts now w)) = taskQueue w"
  unfolding resetDailyCounts_def createConnection_def execute_update_def bind_io_def db_call_def
  by (cases "faults w"; cases "tl (faults w)") auto

lemma resetDailyCounts_ok:
  "faults w = [] \<Longrightarrow>
   resetDailyCounts now w =
      (Inr (length (filter (stale now) (users w))),
       w\<lparr>users := map (\<lambda>u. if stale now u then reset_row now u else u) (users w)\<rparr>)"
  by (simp add: resetDailyCounts_def createConnection_def execute_update_def bind_io_def
      db_call_def)

lemma reset_row_frame:
  "(reset_row now u)\<lparr>u_tasks_today := u_tasks_today u, u_ads_today := u_ads_today u,
      u_updated_at := u_updated_at u\<rparr> = u"
  by (simp add: reset_row_def)

lemma reset_row_zero:
  "u_tasks_today (reset_row now u) = Some 0" "u_ads_today (reset_row now u) = Some 0"
  by (simp_all add: reset_row_def)

lemma reset_row_changed:
  "reset_row now u \<noteq> u \<Longrightarrow> u_updated_at (reset_row now u) = now"
  by (auto simp: reset_row_def)

lemma user_row_sel:
  "u_id (user_row n m t a b c d e) = n"
  "u_tasks_today (user_row n m t a b c d e) = Some a"
  "u_ads_today (user_row n m t a b c d e) = Some b"
  "u_total_ads (user_row n m t a b c d e) = Some c"
  "u_last_ad_task_count (user_row n m t a b c d e) = Some d"
  "u_updated_at (user_row n m t a b c d e) = e"
  by (simp_all add: user_row_def)

lemma sample_users: "users sample_world = [john, jane]"
  by (simp add: sample_world_def)

lemma sample_stale: "stale t0 john" "\<not> stale t0 jane"
  by (simp_all add: stale_def john_def jane_def user_row_sel DATE_def t0_def)

lemma sample_reset:
  "fst (resetDailyCounts t0 sample_world) = Inr 1"
  "users (snd (resetDailyCounts t0 sample_world)) ! 0 = reset_row t0 john"
  by (simp_all add: resetDailyCounts_ok sample_world_sel sample_users sample_stale)

text \<open>
  C10. The claim: the reset changes \<open>tasks_today\<close> and \<open>ads_today\<close> and no other field. What
  holds: every row of \<open>users\<close> agrees with its old value on all fields but \<open>tasks_today\<close>,
  \<open>ads_today\<close> and \<open>updated_at\<close> (so \<open>last_ad_task_count\<close> and \<open>total_ads\<close> are kept); a row
  that is not stale is unchanged; a changed row was stale, has both counters at 0 and
  carries the time of the reset; when the reset succeeds every stale row has both counters
  at 0; and no other table changes.
\<close>

theorem resetDailyCounts_frame:
  assumes run: "snd (resetDailyCounts now w) = w'" and i: "i < length (users w)"
  shows "length (users w') = length (users w)
     \<and> (users w' ! i)\<lparr>u_tasks_today := u_tasks_today (users w ! i),
                       u_ads_today := u_ads_today (users w ! i),
                       u_updated_at := u_updated_at (users w ! i)\<rparr> = users w ! i
     \<and> (\<not> stale now (users w ! i) \<longrightarrow> users w' ! i = users w ! i)
     \<and> (users w' ! i \<noteq> users w ! i \<longrightarrow>
          stale now (users w ! i) \<and> u_tasks_today (users w' ! i) = Some 0
          \<and> u_ads_today (users w' ! i) = Some 0 \<and> u_updated_at (users w' ! i) = now)
     \<and> ((\<exists>n. fst (resetDailyCounts now w) = Inr n) \<and> stale now (users w ! i) \<longrightarrow>
          u_tasks_today (users w' ! i) = Some 0 \<and> u_ads_today (users w' ! i) = Some 0)
     \<and> tasks w' = tasks w \<and> task_usage w' = task_usage w
     \<and> ad_campaigns w' = ad_campaigns w \<and> ad_impressions w' = ad_impressions w
     \<and> taskQueue w' = taskQueue w"
proof -
  let ?u = "users w ! i"
  from resetDailyCounts_cases[of now w] run
  have rest: "tasks w' = tasks w" "task_usage w' = task_usage w"
      "ad_campaigns w' = ad_campaigns w" "ad_impressions w' = ad_impressions w"
      "taskQueue w' = taskQueue w"
    and alt: "fst (resetDailyCounts now w) = Inl DbError \<and> users w' = users w
      \<or> fst (resetDailyCounts now w) = Inr (length (filter (stale now) (users w)))
        \<and> users w' = map (\<lambda>u. if stale now u then reset_row now u else u) (users w)"
    by auto
  from alt show ?thesis
  proof
    assume "fst (resetDailyCounts now w) = Inl DbError \<and> users w' = users w"
    with rest show ?thesis by simp
  next
    assume ok: "fst (resetDailyCounts now w) = Inr (length (filter (stale now) (users w)))
        \<and> users w' = map (\<lambda>u. if stale now u then reset_row now u else u) (users w)"
    with i have at: "users w' ! i = (if stale now ?u then reset_row now ?u else ?u)"
      and len: "length (users w') = length (users w)"
      by simp_all
    show ?thesis
      using len rest reset_row_frame[where u = ?u and now = now]
        reset_row_zero[where u = ?u and now = now]
        reset_row_changed[where u = ?u and now = now]
      unfolding at by (cases "stale now ?u") simp_all
  qed
qed

theorem resetDailyCounts_frame_witness:
  "0 < length (users sample_world)
   \<and> stale t0 (users sample_world ! 0)
   \<and> length (users (snd (resetDailyCounts t0 sample_world))) = length (users sample_world)
   \<and> u_tasks_today (users (snd (resetDailyCounts t0 sample_world)) ! 0) = Some 0
   \<and> u_ads_today (users (snd (resetDailyCounts t0 sample_world)) ! 0) = Some 0
   \<and> u_total_ads (users (snd (resetDailyCounts t0 sample_world)) ! 0) = Some 7
   \<and> u_last_ad_task_count (users (snd (resetDailyCounts t0 sample_world)) ! 0) = Some 2"
proof -
  define x where "x = users (snd (resetDailyCounts t0 sample_world)) ! 0"
  have i: "0 < length (users sample_world)" by (simp add: sample_users)
  have st: "stale t0 (users sample_world ! 0)" by (simp add: sample_users sample_stale)
  have ok: "\<exists>n. fst (resetDailyCounts t0 sample_world) = Inr n" by (simp add: sample_reset)
  note T = resetDailyCounts_frame [OF refl i, of t0, folded x_def]
  note len = T[THEN conjunct1]
  note fr = T[THEN conjunct2, THEN conjunct1]
  note zero = T[THEN conjunct2, THEN conjunct2, THEN conjunct2, THEN conjunct2, THEN conjunct1]
  from zero ok st have z: "u_tasks_today x = Some 0 \<and> u_ads_today x = Some 0" by blast
  from arg_cong[where f = u_total_ads, OF fr]
  have a: "u_total_ads x = Some 7" by (simp add: sample_users john_def user_row_sel)
  from arg_cong[where f = u_last_ad_task_count, OF fr]
  have b: "u_last_ad_task_count x = Some 2" by (simp add: sample_users john_def user_row_sel)
  from i st len z a b show ?thesis unfolding x_def by blast
qed

text \<open>
  C10, the claim refuted: the reset at \<open>t0\<close> moves John's \<open>updated_at\<close> from the day before
  to \<open>t0\<close>.
\<close>

theorem resetDailyCounts_stamps_updated_at:
  "u_updated_at (users sample_world ! 0) = 1727990000
   \<and> u_updated_at (users (snd (resetDailyCounts t0 sample_world)) ! 0) = t0
   \<and> t0 \<noteq> 1727990000"
proof -
  have "u_updated_at (reset_row t0 john) = t0"
    by (simp add: john_def user_row_sel reset_row_def)
  moreover have "u_updated_at (users sample_world ! 0) = 1727990000"
    by (simp add: sample_users john_def user_row_sel)
  moreover have "t0 \<noteq> 1727990000" by (simp add: t0_def)
  ultimately show ?thesis by (simp add: sample_reset)
qed

section \<open>Properties of completion recording\<close>

lemma find_Some_filter: "find P xs = Some x \<Longrightarrow> 0 < length (filter P xs)"
  by (induction xs) (auto split: if_splits)

lemma find_mark_completed:
  "find (\<lambda>i. i_id i = k) (map (mark_completed now k') xs)
     = map_option (mark_completed now k') (find (\<lambda>i. i_id i = k) xs)"
  by (induction xs) (auto simp: mark_completed_def)

lemma mark_completed_campaign: "i_campaign_id (mark_completed now k i) = i_campaign_id i"
  by (simp add: mark_completed_def)

lemma mark_completed_twice:
  "mark_completed now k (mark_completed now' k i) = mark_completed now k i"
  by (simp add: mark_completed_def)

lemma mark_completed_flag:
  "i_completed (mark_completed now k (mark_completed now' k i))
     = i_completed (mark_completed now' k i)"
  by (simp add: mark_completed_def)

lemma add_completion_count:
  "c_completions (add_completion now cid c) = c_completions c + (if c_id c = cid then 1 else 0)"
  "c_id (add_completion now cid c) = c_id c"
  by (simp_all add: add_completion_def)

lemma recordCompletion_ok:
  assumes "faults w = []"
  shows "fst (recordCompletion now k w) = Inr (0 < length (filter (\<lambda>i. i_id i = k) (ad_impressions w)))"
    and "faults (snd (recordCompletion now k w)) = []"
    and "ad_impressions (snd (recordCompletion now k w))
           = map (mark_completed now k) (ad_impressions w)"
    and "ad_campaigns (snd (recordCompletion now k w))
           = (case find (\<lambda>i. i_id i = k) (ad_impressions w) of
                None \<Rightarrow> ad_campaigns w
              | Some i \<Rightarrow> map (add_completion now (i_campaign_id i)) (ad_campaigns w))"
  using assms
  by (simp_all add: recordCompletion_def createConnection_def execute_update_def bind_io_def
      db_call_def return_io_def find_mark_completed mark_completed_campaign
      split: option.splits)

lemma first_impression_sel:
  "i_id first_impression = 7" "i_campaign_id first_impression = 1"
  "i_user_id first_impression = 1" "i_completed first_impression = False"
  by (simp_all add: first_impression_def)

lemma served_world_sel:
  "faults served_world = []"
  "ad_impressions served_world = [first_impression]"
  "ad_campaigns served_world = [luxury_tech, financial_services, ai_tools, enterprise_saas]"
  by (simp_all add: served_world_def sample_world_sel)

lemma served_find:
  "find (\<lambda>i. i_id i = 7) (ad_impressions served_world) = Some first_impression"
  by (simp add: served_world_sel first_impression_sel)

lemma trackAdCompletion_campaigns:
  "ad_campaigns (snd (trackAdCompletion now tracking userId w)) = ad_campaigns w"
  by (auto simp: trackAdCompletion_def return_io_def catch_io_def bind_io_def
      execute_update_def db_call_def split: option.splits list.splits)

text \<open>
  C8. The claim: a second \<open>recordCompletion\<close> with the same token leaves the state as the
  first did and does not add to the completions again. What holds, for a known impression
  and no database failure: both calls return true, each call adds one to the completions
  of the campaign of the impression, so that two calls add two; the \<open>completed\<close> flags after
  the second call are those after the first, and the impressions are then marked with the
  time of the second call.
\<close>

theorem recordCompletion_counts_every_call:
  assumes nofault: "faults w = []"
    and known: "find (\<lambda>i. i_id i = impressionId) (ad_impressions w) = Some imp"
    and first: "snd (recordCompletion now impressionId w) = w1"
    and second: "snd (recordCompletion now' impressionId w1) = w2"
  shows "fst (recordCompletion now impressionId w) = Inr True
       \<and> fst (recordCompletion now' impressionId w1) = Inr True
       \<and> map c_completions (ad_campaigns w1)
            = map (\<lambda>c. c_completions c + (if c_id c = i_campaign_id imp then 1 else 0))
                  (ad_campaigns w)
       \<and> map c_completions (ad_campaigns w2)
            = map (\<lambda>c. c_completions c + (if c_id c = i_campaign_id imp then 2 else 0))
                  (ad_campaigns w)
       \<and> map i_completed (ad_impressions w2) = map i_completed (ad_impressions w1)
       \<and> ad_impressions w2 = map (mark_completed now' impressionId) (ad_impressions w)"
proof -
  from known have mem: "0 < length (filter (\<lambda>i. i_id i = impressionId) (ad_impressions w))"
    by (rule find_Some_filter)
  note r1 = recordCompletion_ok[OF nofault, of now impressionId, unfolded first]
  have f1: "faults w1 = []" by (rule r1(2))
  have i1: "ad_impressions w1 = map (mark_completed now impressionId) (ad_impressions w)"
    by (rule r1(3))
  have c1: "ad_campaigns w1 = map (add_completion now (i_campaign_id imp)) (ad_campaigns w)"
    using r1(4) known by simp
  have known1: "find (\<lambda>i. i_id i = impressionId) (ad_impressions w1)
                  = Some (mark_completed now impressionId imp)"
    by (simp add: i1 find_mark_completed known)
  have mem1: "0 < length (filter (\<lambda>i. i_id i = impressionId) (ad_impressions w1))"
    using known1 by (rule find_Some_filter)
  note r2 = recordCompletion_ok[OF f1, of now' impressionId, unfolded second]
  have i2: "ad_impressions w2 = map (mark_completed now' impressionId) (ad_impressions w1)"
    by (rule r2(3))
  have c2: "ad_campaigns w2 = map (add_completion now' (i_campaign_id imp)) (ad_campaigns w1)"
    using r2(4) known1 by (simp add: mark_completed_campaign)
  have a: "fst (recordCompletion now impressionId w) = Inr True"
    using recordCompletion_ok(1)[OF nofault, of now impressionId] mem by simp
  have b: "fst (recordCompletion now' impressionId w1) = Inr True"
    using recordCompletion_ok(1)[OF f1, of now' impressionId] mem1 by simp
  have c: "map c_completions (ad_campaigns w1)
            = map (\<lambda>c. c_completions c + (if c_id c = i_campaign_id imp then 1 else 0))
                  (ad_campaigns w)"
    by (simp add: c1 add_completion_count)
  have d: "map c_completions (ad_campaigns w2)
            = map (\<lambda>c. c_completions c + (if c_id c = i_campaign_id imp then 2 else 0))
                  (ad_campaigns w)"
    by (simp add: c2 c1 add_completion_count)
  have e: "map i_completed (ad_impressions w2) = map i_completed (ad_impressions w1)"
    by (simp add: i2 i1 mark_completed_flag)
  have f: "ad_impressions w2 = map (mark_completed now' impressionId) (ad_impressions w)"
    by (simp add: i2 i1 mark_completed_twice)
  from a b c d e f show ?thesis by blast
qed

theorem recordCompletion_counts_every_call_witness:
  "faults served_world = []
   \<and> find (\<lambda>i. i_id i = 7) (ad_impressions served_world) = Some first_impression
   \<and> fst (recordCompletion t0 7 served_world) = Inr True
   \<and> fst (recordCompletion (t0 + 60) 7 (snd (recordCompletion t0 7 served_world))) = Inr True
   \<and> map c_completions (ad_campaigns (snd (recordCompletion t0 7 served_world)))
        = map (\<lambda>c. c_completions c + (if c_id c = i_campaign_id first_impression then 1 else 0))
              (ad_campaigns served_world)
   \<and> map c_completions
        (ad_campaigns (snd (recordCompletion (t0 + 60) 7 (snd (recordCompletion t0 7 served_world)))))
        = map (\<lambda>c. c_completions c + (if c_id c = i_campaign_id first_impression then 2 else 0))
              (ad_campaigns served_world)"
proof -
  have nf: "faults served_world = []" by (rule served_world_sel)
  note T = recordCompletion_counts_every_call [OF nf served_find refl refl, of t0 "t0 + 60"]
  from nf served_find T[THEN conjunct1] T[THEN conjunct2, THEN conjunct1]
    T[THEN conjunct2, THEN conjunct2, THEN conjunct1]
    T[THEN conjunct2, THEN conjunct2, THEN conjunct2, THEN conjunct1]
  show ?thesis by blast
qed

text \<open>
  C8, the claim refuted: on the sample catalog with one served impression the completions
  of the first campaign are 0, then 1 after one call and 2 after a second call with the
  same impression id.
\<close>

theorem recordCompletion_twice_counts_twice:
  "map c_completions (ad_campaigns served_world) = [0, 0, 0, 0]
   \<and> map c_completions (ad_campaigns (snd (recordCompletion t0 7 served_world))) = [1, 0, 0, 0]
   \<and> map c_completions
        (ad_campaigns (snd (recordCompletion t0 7 (snd (recordCompletion t0 7 served_world)))))
        = [2, 0, 0, 0]"
proof -
  define w1 where "w1 = snd (recordCompletion t0 7 served_world)"
  have nf: "faults served_world = []" by (rule served_world_sel)
  note r1 = recordCompletion_ok[OF nf, of t0 7, folded w1_def]
  have c1: "ad_campaigns w1 = map (add_completion t0 1)
              [luxury_tech, financial_services, ai_tools, enterprise_saas]"
    using r1(4) by (simp add: served_find first_impression_sel served_world_sel)
  have i1: "ad_impressions w1 = [mark_completed t0 7 first_impression]"
    using r1(3) by (simp add: served_world_sel)
  have find1: "find (\<lambda>i. i_id i = 7) (ad_impressions w1) = Some (mark_completed t0 7 first_impression)"
    by (simp add: i1 mark_completed_def first_impression_sel)
  note r2 = recordCompletion_ok[OF r1(2), of t0 7]
  have c2: "ad_campaigns (snd (recordCompletion t0 7 w1)) = map (add_completion t0 1) (ad_campaigns w1)"
    using r2(4) by (simp add: find1 mark_completed_campaign first_impression_sel)
  have m1: "map c_completions (ad_campaigns w1) = [1, 0, 0, 0]"
    by (simp add: c1 add_completion_count sample_campaign_defs campaign_row_sel)
  have m2: "map c_completions (ad_campaigns (snd (recordCompletion t0 7 w1))) = [2, 0, 0, 0]"
    by (simp add: c2 c1 add_completion_count sample_campaign_defs campaign_row_sel)
  have m0: "map c_completions (ad_campaigns served_world) = [0, 0, 0, 0]"
    by (simp add: served_world_sel sample_campaign_defs campaign_row_sel)
  from m0 m1 m2 show ?thesis unfolding w1_def by blast
qed

section \<open>Properties of the quota check\<close>

lemma getTodayTaskCount_fault:
  "faults w = True # fs \<Longrightarrow> fst (getTodayTaskCount now uid ty w) = Inr 0"
  by (simp add: getTodayTaskCount_def catch_io_def execute_query_def bind_io_def db_call_def
      return_io_def)

lemma getTodayTaskCount_ok:
  "(case faults w of [] \<Rightarrow> True | f # fs \<Rightarrow> \<not> f) \<Longrightarrow>
   fst (getTodayTaskCount now uid ty w) = Inr (today_count now uid ty w)"
  by (auto simp: getTodayTaskCount_def catch_io_def execute_query_def bind_io_def db_call_def
      return_io_def today_count_def split: list.splits)

lemma getTodayTaskCount_total:
  "\<exists>n. fst (getTodayTaskCount now uid ty w) = Inr n"
  by (auto simp: getTodayTaskCount_def catch_io_def execute_query_def bind_io_def db_call_def
      return_io_def split: list.splits)

lemma getTodayTaskCount_tables:
  "tasks (snd (getTodayTaskCount now uid ty w)) = tasks w"
  "taskQueue (snd (getTodayTaskCount now uid ty w)) = taskQueue w"
  "users (snd (getTodayTaskCount now uid ty w)) = users w"
  by (auto simp: getTodayTaskCount_def catch_io_def execute_query_def bind_io_def db_call_def
      return_io_def split: list.splits)

lemma canProcessTask_result:
  assumes "taskLimits tier = Some limits" and "limits ty = Some limit"
  shows "fst (canProcessTask now uid tier ty w)
           = (if limit = - 1 then Inr True
              else map_sum id (\<lambda>n. int n < limit) (fst (getTodayTaskCount now uid ty w)))"
    and "tasks (snd (canProcessTask now uid tier ty w)) = tasks w"
    and "taskQueue (snd (canProcessTask now uid tier ty w)) = taskQueue w"
    and "users (snd (canProcessTask now uid tier ty w)) = users w"
  using assms getTodayTaskCount_tables[of now uid ty w]
  by (auto simp: canProcessTask_def bind_io_def return_io_def split: prod.splits sum.splits)

lemma taskLimits_free:
  "taskLimits ''free'' = Some (map_of [(''text'', 5), (''image'', 1), (''code'', 1), (''research'', 1),
                         (''analysis'', 1), (''voice'', 0)])"
  by (simp add: taskLimits_def)

lemma free_limits:
  "map_of [(''text'', 5), (''image'', 1), (''code'', 1), (''research'', 1),
                         (''analysis'', 1), (''voice'', 0::int)] ''text'' = Some 5"
  "map_of [(''text'', 5), (''image'', 1), (''code'', 1), (''research'', 1),
                         (''analysis'', 1), (''voice'', 0::int)] ''image'' = Some 1"
  by simp_all

lemma busy_world_sel:
  "faults busy_world = []"
  "tasks busy_world = [stored_text_task ''task_1'', stored_text_task ''task_2'', stored_text_task ''task_3'',
      stored_text_task ''task_4'', stored_text_task ''task_5'']"
  by (simp_all add: busy_world_def sample_world_sel)

lemma stored_text_task_sel:
  "t_user_id (stored_text_task n) = 1" "t_task_type (stored_text_task n) = ''text''"
  "t_created_at (stored_text_task n) = 1728000500"
  by (simp_all add: stored_text_task_def)

lemma busy_count: "today_count t0 1 ''text'' busy_world = 5"
  by (simp add: today_count_def busy_world_sel stored_text_task_sel DATE_def t0_def)

lemma db_call_ok: "faults w = [] \<Longrightarrow> db_call w = (Inr (), w)"
  by (simp add: db_call_def)

lemma getTodayTaskCount_nofault:
  "faults w = [] \<Longrightarrow> getTodayTaskCount now uid ty w = (Inr (today_count now uid ty w), w)"
  by (simp add: getTodayTaskCount_def catch_io_def execute_query_def bind_io_def db_call_ok)

lemma canProcessTask_nofault:
  assumes "faults w = []" and "taskLimits tier = Some limits" and "limits ty = Some limit"
  shows "canProcessTask now uid tier ty w
           = (Inr (limit = - 1 \<or> int (today_count now uid ty w) < limit), w)"
  using assms
  by (auto simp: canProcessTask_def bind_io_def return_io_def getTodayTaskCount_nofault)


lemma processTask_check_accepts:
  assumes "faults w = []" and "task_type t = Some ty"
    and "taskLimits (effective_tier user) = Some limits" and "limits ty = Some limit"
    and "validateTask t user (effective_tier user) = None"
    and "limit = - 1 \<or> int (today_count now (user_id user) ty w) < limit"
  shows "processTask_check now t user w = (Inr ty, w)"
  using assms
  by (auto simp: processTask_check_def Let_def bind_io_def return_io_def throw_io_def
        canProcessTask_nofault)

lemma recordTaskUsage_nofault:
  assumes "faults w = []"
  shows "fst (recordTaskUsage now uid tier ty w) = Inr ()"
    and "faults (snd (recordTaskUsage now uid tier ty w)) = []"
    and "tasks (snd (recordTaskUsage now uid tier ty w)) = tasks w"
    and "taskQueue (snd (recordTaskUsage now uid tier ty w)) = taskQueue w"
  using assms
  by (simp_all add: recordTaskUsage_def catch_io_def execute_update_def bind_io_def db_call_ok)

lemma processTask_enqueue_nofault:
  assumes "faults w = []"
  shows "\<exists>r. fst (processTask_enqueue now fresh t user ty w) = Inr r \<and> taskId r = ''task_'' @ fresh"
    and "faults (snd (processTask_enqueue now fresh t user ty w)) = []"
    and "tasks (snd (processTask_enqueue now fresh t user ty w)) = tasks w"
    and "taskQueue (snd (processTask_enqueue now fresh t user ty w))
           = taskQueue w @ [queued now fresh t user ty]"
proof -
  let ?w1 = "w\<lparr>taskQueue := taskQueue w @ [queued now fresh t user ty]\<rparr>"
  let ?u = "recordTaskUsage now (user_id user) (effective_tier user) ty ?w1"
  have f1: "faults ?w1 = []" using assms by simp
  note u = recordTaskUsage_nofault[OF f1, of now "user_id user" "effective_tier user" ty]
  have eq: "processTask_enqueue now fresh t user ty w
      = (Inr \<lparr>taskId = ''task_'' @ fresh, status = ''queued'',
               position = length (taskQueue (snd ?u)), estimatedWait = estimateWaitTime (snd ?u)\<rparr>,
         snd ?u)"
    using u(1)
    by (cases ?u) (simp add: processTask_enqueue_def Let_def bind_io_def queued_def)
  show "\<exists>r. fst (processTask_enqueue now fresh t user ty w) = Inr r \<and> taskId r = ''task_'' @ fresh"
    unfolding eq by simp
  show "faults (snd (processTask_enqueue now fresh t user ty w)) = []"
    unfolding eq using u(2) by simp
  show "tasks (snd (processTask_enqueue now fresh t user ty w)) = tasks w"
    unfolding eq using u(3) by simp
  show "taskQueue (snd (processTask_enqueue now fresh t user ty w))
           = taskQueue w @ [queued now fresh t user ty]"
    unfolding eq using u(4) by simp
qed


lemma processTask_accepts:
  assumes "faults w = []" and "task_type t = Some ty"
    and "taskLimits (effective_tier user) = Some limits" and "limits ty = Some limit"
    and "validateTask t user (effective_tier user) = None"
    and "limit = - 1 \<or> int (today_count now (user_id user) ty w) < limit"
  shows "\<exists>r w1. processTask now fresh t user w = (Inr r, w1) \<and> faults w1 = []
                 \<and> tasks w1 = tasks w
                 \<and> taskQueue w1 = taskQueue w @ [queued now fresh t user ty]"
proof -
  from processTask_check_accepts[OF assms]
  have p: "processTask now fresh t user w = processTask_enqueue now fresh t user ty w"
    by (simp add: processTask_def bind_io_def)
  from processTask_enqueue_nofault[OF assms(1), of now fresh t user ty]
  obtain r where "fst (processTask_enqueue now fresh t user ty w) = Inr r"
    and "faults (snd (processTask_enqueue now fresh t user ty w)) = []"
    and "tasks (snd (processTask_enqueue now fresh t user ty w)) = tasks w"
    and "taskQueue (snd (processTask_enqueue now fresh t user ty w))
           = taskQueue w @ [queued now fresh t user ty]"
    by blast
  with p show ?thesis
    by (cases "processTask_enqueue now fresh t user ty w") auto
qed

lemma today_count_tasks: "tasks w1 = tasks w \<Longrightarrow> today_count now uid ty w1 = today_count now uid ty w"
  by (simp add: today_count_def)

lemma process_all_accepts_all:
  assumes "task_type t = Some ty"
    and "taskLimits (effective_tier user) = Some limits" and "limits ty = Some limit"
    and "validateTask t user (effective_tier user) = None"
  shows "faults w = [] \<Longrightarrow>
         list_all (\<lambda>(now, fresh). int (today_count now (user_id user) ty w) < limit) reqs \<Longrightarrow>
         fst (process_all t user reqs w) = length reqs"
proof (induction reqs arbitrary: w)
  case Nil
  show ?case by simp
next
  case (Cons req reqs)
  obtain now fresh where req: "req = (now, fresh)" by (cases req)
  from Cons.prems(2) req have below: "int (today_count now (user_id user) ty w) < limit"
    and others: "list_all (\<lambda>(now, fresh). int (today_count now (user_id user) ty w) < limit) reqs"
    by simp_all
  from processTask_accepts[OF Cons.prems(1) assms(1,2,3,4), of now fresh] below
  obtain r w1 where p: "processTask now fresh t user w = (Inr r, w1)" and f: "faults w1 = []"
    and tk: "tasks w1 = tasks w" by blast
  from others have "list_all (\<lambda>(now, fresh). int (today_count now (user_id user) ty w1) < limit) reqs"
    by (simp add: today_count_tasks[OF tk])
  with Cons.IH[OF f] have "fst (process_all t user reqs w1) = length reqs" by simp
  with p req show ?case by simp
qed


lemma sample_valid_text: "validateTask text_request john_request (effective_tier john_request) = None"
  by (simp add: validateTask_def text_request_def john_request_def effective_tier_def
      validateAgentAccess_def tierAccess_def falsy_def containsInappropriateContent_def lower_def)



lemma john_request_sel:
  "effective_tier john_request = ''free''" "user_id john_request = 1"
  by (simp_all add: john_request_def effective_tier_def)

lemma request_types:
  "task_type text_request = Some ''text''" "task_type image_request = Some ''image''"
  by (simp_all add: text_request_def image_request_def)

lemma sample_count: "today_count now uid ty sample_world = 0"
  by (simp add: today_count_def sample_world_sel)

text \<open>
  C1. The claim: the quota check allows a consumption exactly when the identity's
  consumptions of the day are below the limit, so that after as many accepted consumptions
  as the limit the next is denied with \<open>remainingToday = 0\<close>; with limit \<open>-1\<close> everything is
  allowed. What holds: \<open>canProcessTask\<close> answers with a boolean only; with limit \<open>-1\<close> the
  answer is true; with another limit, when the count query succeeds, the answer is true
  exactly when the number of rows of \<open>tasks\<close> of that user and type created today is below
  the limit; and the check itself records nothing.
\<close>

theorem canProcessTask_counts_stored_tasks:
  assumes "taskLimits tier = Some limits" and "limits taskType = Some limit"
  shows "(limit = - 1 \<longrightarrow> fst (canProcessTask now userId tier taskType w) = Inr True)
       \<and> (limit \<noteq> - 1 \<and> (case faults w of [] \<Rightarrow> True | f # fs \<Rightarrow> \<not> f) \<longrightarrow>
            fst (canProcessTask now userId tier taskType w)
              = Inr (int (today_count now userId taskType w) < limit))
       \<and> tasks (snd (canProcessTask now userId tier taskType w)) = tasks w
       \<and> users (snd (canProcessTask now userId tier taskType w)) = users w"
  using canProcessTask_result[OF assms, of now userId w]
    getTodayTaskCount_ok[of w now userId taskType]
  by auto

lemma taskLimits_enterprise:
  "taskLimits ''enterprise'' = Some (map_of [(''text'', - 1), (''image'', - 1), (''code'', - 1),
                               (''research'', - 1), (''analysis'', - 1), (''voice'', - 1)])"
  by (simp add: taskLimits_def)

lemma enterprise_limits:
  "map_of [(''text'', - 1), (''image'', - 1), (''code'', - 1),
           (''research'', - 1), (''analysis'', - 1), (''voice'', - 1::int)] ''text'' = Some (- 1)"
  by simp

theorem canProcessTask_counts_stored_tasks_witness:
  "daily_limit ''free'' ''text'' = Some 5
   \<and> daily_limit ''enterprise'' ''text'' = Some (- 1)
   \<and> today_count t0 1 ''text'' busy_world = 5
   \<and> fst (canProcessTask t0 1 ''free'' ''text'' busy_world) = Inr False
   \<and> fst (canProcessTask t0 1 ''enterprise'' ''text'' busy_world) = Inr True
   \<and> tasks (snd (canProcessTask t0 1 ''free'' ''text'' busy_world)) = tasks busy_world"
proof -
  have f: "(5::int) \<noteq> - 1 \<and> (case faults busy_world of [] \<Rightarrow> True | f # fs \<Rightarrow> \<not> f)"
    by (simp add: busy_world_sel)
  note T = canProcessTask_counts_stored_tasks [OF taskLimits_free free_limits(1), of t0 1 busy_world]
  note E = canProcessTask_counts_stored_tasks [OF taskLimits_enterprise enterprise_limits,
      of t0 1 busy_world]
  from T[THEN conjunct2, THEN conjunct1] f
  have a: "fst (canProcessTask t0 1 ''free'' ''text'' busy_world)
             = Inr (int (today_count t0 1 ''text'' busy_world) < 5)" by blast
  have a': "fst (canProcessTask t0 1 ''free'' ''text'' busy_world) = Inr False"
    using busy_count unfolding a by simp
  from E[THEN conjunct1]
  have b: "fst (canProcessTask t0 1 ''enterprise'' ''text'' busy_world) = Inr True" by blast
  have l: "daily_limit ''free'' ''text'' = Some 5"
    "daily_limit ''enterprise'' ''text'' = Some (- 1)"
    by (simp_all add: daily_limit_def taskLimits_free taskLimits_enterprise)
  from l busy_count a' b T[THEN conjunct2, THEN conjunct2, THEN conjunct1]
  show ?thesis by blast
qed

text \<open>
  C1, the claim refuted: the free tier allows 5 text tasks a day, and six requests made one
  after the other, before the task processor has stored any of them, are all accepted.
\<close>

theorem six_sequential_requests_all_accepted:
  "daily_limit ''free'' ''text'' = Some 5
   \<and> fst (process_all text_request john_request
            [(t0, ''1''), (t0 + 1, ''2''), (t0 + 2, ''3''), (t0 + 3, ''4''), (t0 + 4, ''5''),
             (t0 + 5, ''6'')] sample_world) = 6"
proof -
  have tl: "taskLimits (effective_tier john_request)
              = Some (map_of [(''text'', 5), (''image'', 1), (''code'', 1), (''research'', 1),
                         (''analysis'', 1), (''voice'', 0)])"
    by (simp add: john_request_sel taskLimits_free)
  have "fst (process_all text_request john_request
            [(t0, ''1''), (t0 + 1, ''2''), (t0 + 2, ''3''), (t0 + 3, ''4''), (t0 + 4, ''5''),
             (t0 + 5, ''6'')] sample_world)
        = length [(t0, ''1''), (t0 + 1, ''2''), (t0 + 2, ''3''), (t0 + 3, ''4''), (t0 + 4, ''5''),
             (t0 + 5, ''6'')]"
    by (rule process_all_accepts_all[OF request_types(1) tl free_limits(1) sample_valid_text
          sample_world_sel(1)])
       (simp add: sample_count)
  then show ?thesis by (simp add: daily_limit_def taskLimits_free)
qed

section \<open>Properties under persistence failure\<close>

lemma catch_return_total: "\<exists>y w'. catch_io m (\<lambda>e. return_io x) w = (Inr y, w')"
  by (cases "m w"; cases "fst (m w)") (auto simp: catch_io_def return_io_def)

lemma selectAd_total: "\<exists>a w'. selectAd now_db now_js tier w = (Inr a, w')"
  unfolding selectAd_def getFallbackAd_def by (rule catch_return_total)

lemma trackImpression_total: "\<exists>i w'. trackImpression now fresh uid a w = (Inr i, w')"
  unfolding trackImpression_def by (rule catch_return_total)

lemma updateUserAdStats_total: "\<exists>w'. updateUserAdStats now uid n w = (Inr (), w')"
  using catch_return_total[where x = "()"] unfolding updateUserAdStats_def by simp

lemma serveAd_serves:
  assumes "shouldServeAd tier stats"
  shows "\<exists>d. fst (serveAd now_db now_js fresh uid tier stats w) = Inr (AdRequired d)"
proof -
  obtain a w1 where s: "selectAd now_db now_js tier w = (Inr a, w1)"
    using selectAd_total by blast
  obtain i w2 where t: "trackImpression now_db fresh uid a w1 = (Inr i, w2)"
    using trackImpression_total by blast
  obtain w3 where u: "updateUserAdStats now_db uid (or_zero (tasksCount stats)) w2 = (Inr (), w3)"
    using updateUserAdStats_total by blast
  from assms s t u show ?thesis
    by (simp add: serveAd_def catch_io_def bind_io_def return_io_def)
qed

lemma canProcessTask_fault:
  assumes "taskLimits tier = Some limits" and "limits ty = Some limit" and "limit \<noteq> - 1"
    and "faults w = True # fs"
  shows "fst (canProcessTask now uid tier ty w) = Inr (0 < limit)"
  using assms getTodayTaskCount_fault[OF assms(4), of now uid ty]
  by (auto simp: canProcessTask_def bind_io_def return_io_def split: prod.splits sum.splits)

lemma due_stats_due: "shouldServeAd ''free'' due_stats"
  by (simp add: shouldServeAd_def adFrequency_def due_stats_def or_zero_def)

lemma count_down_faults: "faults count_down_world = True # []"
  by (simp add: count_down_world_def)

text \<open>
  The failing insert, run: the catalog query works and the first campaign is selected, the
  insert of the impression fails, and \<open>serveAd\<close> still answers with the advertisement, under
  a tracking id made up on the spot.
\<close>

lemma insert_down_sel:
  "faults insert_down_world = [False, False, False, True]"
  "ad_campaigns insert_down_world = [luxury_tech, financial_services, ai_tools, enterprise_saas]"
  by (simp_all add: insert_down_world_def sample_world_sel)

lemma insert_down_select:
  "selectAd t0 t0 ''free'' insert_down_world
     = (Inr (Campaign luxury_tech), insert_down_world\<lparr>faults := [False, True]\<rparr>)"
proof -
  have q: "getCampaignsByAudience t0 ''free'' insert_down_world
      = (Inr [luxury_tech, ai_tools, enterprise_saas], insert_down_world\<lparr>faults := [False, True]\<rparr>)"
    by (simp add: getCampaignsByAudience_def createConnection_def execute_query_def bind_io_def
        db_call_def insert_down_sel campaigns_by_audience_def sample_campaign_defs
        campaign_row_sel t0_def midnight_def)
  have pick: "foldl higher_cpm luxury_tech [ai_tools, enterprise_saas] = luxury_tech"
    by (simp add: higher_cpm_def sample_campaign_defs campaign_row_sel)
  show ?thesis
    using pick
    by (simp add: selectAd_def catch_io_def bind_io_def q sample_available return_io_def)
qed

lemma insert_down_track:
  "fst (trackImpression t0 fresh uid (Campaign luxury_tech)
          (insert_down_world\<lparr>faults := [False, True]\<rparr>))
     = Inr (Tracking (''tracking_'' @ fresh))"
  by (simp add: trackImpression_def recordImpression_def catch_io_def bind_io_def Let_def
      createConnection_def execute_update_def db_call_def return_io_def ad_ident_def
      insert_down_sel)


lemma insert_down_serveAd:
  "\<exists>d. fst (serveAd t0 t0 fresh uid ''free'' due_stats insert_down_world) = Inr (AdRequired d)
       \<and> campaignId d = ad_ident (Campaign luxury_tech)
       \<and> trackingId d = Tracking (''tracking_'' @ fresh)"
proof -
  let ?w1 = "insert_down_world\<lparr>faults := [False, True]\<rparr>"
  obtain w2 where t: "trackImpression t0 fresh uid (Campaign luxury_tech) ?w1
      = (Inr (Tracking (''tracking_'' @ fresh)), w2)"
    using insert_down_track[of fresh uid]
    by (cases "trackImpression t0 fresh uid (Campaign luxury_tech) ?w1") simp
  obtain w3 where u: "updateUserAdStats t0 uid (or_zero (tasksCount due_stats)) w2 = (Inr (), w3)"
    using updateUserAdStats_total by blast
  show ?thesis
    using due_stats_due
    by (simp add: serveAd_def catch_io_def bind_io_def return_io_def insert_down_select t u)
qed

text \<open>
  C7. The claim: a failed read in the quota check denies the request, a failed write while
  recording the impression does not block it. What holds: both paths let the request
  through. When the count query fails the count is taken as 0 and the check answers
  whether the limit is positive; and whenever an advertisement is due, \<open>serveAd\<close> returns
  an ad descriptor and throws nothing, whatever database calls fail.
\<close>

theorem persistence_failure_fails_open:
  assumes "taskLimits tier = Some limits" and "limits taskType = Some limit"
    and "limit \<noteq> - 1" and "faults w = True # fs" and "shouldServeAd tier stats"
  shows "fst (canProcessTask now userId tier taskType w) = Inr (0 < limit)
       \<and> (\<forall>w'. \<exists>d. fst (serveAd now_db now_js fresh userId tier stats w') = Inr (AdRequired d))"
  using canProcessTask_fault[OF assms(1,2,3,4)] serveAd_serves[OF assms(5)] by blast

theorem persistence_failure_fails_open_witness:
  "faults count_down_world = True # []
   \<and> shouldServeAd ''free'' due_stats
   \<and> fst (canProcessTask t0 1 ''free'' ''text'' count_down_world) = Inr ((0::int) < 5)
   \<and> (\<exists>d. fst (serveAd t0 t0 ''1728003600_k3j9x2m1q'' 1 ''free'' due_stats insert_down_world)
            = Inr (AdRequired d))"
proof -
  note T = persistence_failure_fails_open
    [where now = t0 and userId = 1 and now_db = t0 and now_js = t0
       and fresh = "''1728003600_k3j9x2m1q''",
     OF taskLimits_free free_limits(1) _ count_down_faults due_stats_due]
  have T': "fst (canProcessTask t0 1 ''free'' ''text'' count_down_world) = Inr ((0::int) < 5)
       \<and> (\<forall>w'. \<exists>d. fst (serveAd t0 t0 ''1728003600_k3j9x2m1q'' 1 ''free'' due_stats w')
                      = Inr (AdRequired d))"
    by (rule T) simp
  from T'[THEN conjunct2] have "\<exists>d. fst (serveAd t0 t0 ''1728003600_k3j9x2m1q'' 1 ''free'' due_stats
      insert_down_world) = Inr (AdRequired d)" by (rule spec)
  with count_down_faults due_stats_due T'[THEN conjunct1] show ?thesis by blast
qed

text \<open>
  C7, the claim refuted: with the database down at the count query, the quota check grants
  John's text request.
\<close>

theorem quota_check_grants_when_count_fails:
  "faults count_down_world = [True]
   \<and> fst (canProcessTask t0 1 ''free'' ''text'' count_down_world) = Inr True"
proof -
  have "fst (canProcessTask t0 1 ''free'' ''text'' count_down_world) = Inr ((0::int) < 5)"
    by (rule canProcessTask_fault[OF taskLimits_free free_limits(1) _ count_down_faults]) simp
  with count_down_faults show ?thesis by simp
qed

section \<open>Properties of runs of requests\<close>











lemma incrementTaskCount_tasks:
  "today_count now uid ty (snd (incrementTaskCount now' userId w)) = today_count now uid ty w"
  by (auto simp: incrementTaskCount_def createConnection_def execute_update_def bind_io_def
      db_call_def return_io_def today_count_def split: list.splits)




end
